theory Spec2Isabelle
  imports Main "HOL-Library.Multiset"
begin

section \<open>Data model\<close>

text \<open>
  The module \<^verbatim>\<open>db.ts\<close>: the enumeration \<^verbatim>\<open>CustomerType\<close>, each member stored as the
  string of its name, and the interface \<^verbatim>\<open>Customer\<close>.
\<close>

datatype CustomerType = NEW | BUSY | YES | NO | TRIAL | TEST | FULL | NA

text \<open>The string of a member: \<^verbatim>\<open>NEW="NEW"\<close>, and so on.\<close>

fun typeString :: "CustomerType \<Rightarrow> string" where
  "typeString NEW = ''NEW''"
| "typeString BUSY = ''BUSY''"
| "typeString YES = ''YES''"
| "typeString NO = ''NO''"
| "typeString TRIAL = ''TRIAL''"
| "typeString TEST = ''TEST''"
| "typeString FULL = ''FULL''"
| "typeString NA = ''NA''"

text \<open>
  A \<^verbatim>\<open>Date\<close> holds a time value, the milliseconds since the epoch in UTC, or is
  invalid: its time value is \<^verbatim>\<open>NaN\<close>, as for \<^verbatim>\<open>new Date('abc')\<close>.
\<close>

datatype JsDate = Instant int | InvalidDate

text \<open>The errors thrown in the component, and a rejected call of the store.\<close>

datatype JsError = SyntaxError | TypeError | RangeError | StoreError

text \<open>
  \<^verbatim>\<open>Omit<Customer, 'id'>\<close> is the record without its key; \<^verbatim>\<open>Customer\<close> adds the optional
  \<^verbatim>\<open>id\<close>, an integer. The fields \<^verbatim>\<open>id\<close>, \<^verbatim>\<open>note\<close> and \<^verbatim>\<open>type\<close> are named \<open>id_c\<close>,
  \<open>note_c\<close> and \<open>type_c\<close>, their own names being taken in Isabelle. The record is
  written over the type of its dates. A \<open>StoredCustomer\<close> holds any \<^verbatim>\<open>Date\<close>, as the
  store can deliver it: the filter is modelled on such records, where it can throw. A
  \<open>Customer\<close> holds valid dates, each given by its time value: the forms, the sorted view
  and the filter that returns are about such records (on an invalid date the comparator
  of the sort returns \<^verbatim>\<open>NaN\<close>, and the order is the engine's).
\<close>

record 'date NewCustomerRec =
  fullName :: string
  phone :: string
  note_c :: string
  customSearchField1 :: string
  type_c :: CustomerType
  lastCall :: "'date option"
  nextCall :: "'date option"

record 'date CustomerRec = "'date NewCustomerRec" +
  id_c :: "int option"

type_synonym NewCustomer = "int NewCustomerRec"

type_synonym Customer = "int CustomerRec"

type_synonym StoredCustomer = "JsDate CustomerRec"

text \<open>A record with valid dates, as the store holds it.\<close>

definition stored :: "Customer \<Rightarrow> StoredCustomer" where
  "stored c =
     \<lparr>fullName = fullName c, phone = phone c, note_c = note_c c,
      customSearchField1 = customSearchField1 c, type_c = type_c c,
      lastCall = map_option Instant (lastCall c), nextCall = map_option Instant (nextCall c),
      id_c = id_c c\<rparr>"

section \<open>The string operations the view uses\<close>

text \<open>
  Strings are lists of characters. \<^verbatim>\<open>String.prototype.toLowerCase\<close> is the platform's:
  what it returns on a string that is not empty is a parameter \<open>lw\<close> of the model; the
  empty string has no letter to change.
\<close>

definition toLowerCase :: "(string \<Rightarrow> string) \<Rightarrow> string \<Rightarrow> string" where
  "toLowerCase lw s = (if s = [] then [] else lw s)"

text \<open>
  A lowercasing to run the examples with: on ASCII text, \<^verbatim>\<open>A\<close>..\<^verbatim>\<open>Z\<close> go to
  \<^verbatim>\<open>a\<close>..\<^verbatim>\<open>z\<close> and every other character stays.
\<close>

definition lowerChar :: "char \<Rightarrow> char" where
  "lowerChar c =
     (let n = (of_char c :: nat) in if 65 \<le> n \<and> n \<le> 90 then char_of (n + 32) else c)"

definition asciiLower :: "string \<Rightarrow> string" where
  "asciiLower s = map lowerChar s"

text \<open>\<^verbatim>\<open>s.startsWith(t)\<close> and \<^verbatim>\<open>s.includes(t)\<close>: \<open>t\<close> occurs in \<open>s\<close> at some offset.\<close>

fun startsWith :: "string \<Rightarrow> string \<Rightarrow> bool" where
  "startsWith s [] = True"
| "startsWith [] (c # t) = False"
| "startsWith (d # s) (c # t) = (d = c \<and> startsWith s t)"

fun includes_s :: "string \<Rightarrow> string \<Rightarrow> bool" where
  "includes_s [] t = startsWith [] t"
| "includes_s (d # s) t = (startsWith (d # s) t \<or> includes_s s t)"

text \<open>
  \<^verbatim>\<open>String(n)\<close> for an integer key: decimal digits, a minus sign in front of a negative
  number (the store's keys are safe integers, which print without an exponent).
\<close>

definition digitChar :: "nat \<Rightarrow> char" where
  "digitChar d = char_of (48 + d)"

fun decimalNat :: "nat \<Rightarrow> string" where
  "decimalNat n = (if n < 10 then [digitChar n] else decimalNat (n div 10) @ [digitChar (n mod 10)])"

declare decimalNat.simps [simp del]

definition numberString :: "int \<Rightarrow> string" where
  "numberString n = (if n < 0 then CHR ''-'' # decimalNat (nat (- n)) else decimalNat (nat n))"

text \<open>
  \<^verbatim>\<open>new Date(t).toISOString().split('T')[0]\<close>: the UTC calendar date of the instant \<open>t\<close>,
  as \<^verbatim>\<open>YYYY-MM-DD\<close> (years outside 0..9999 print with a sign and six digits). The day
  number is the floor of \<open>t / 86400000\<close>; the civil date is computed from the day number
  over 400-year eras starting on 1 March.
\<close>

fun padLeft :: "nat \<Rightarrow> string \<Rightarrow> string" where
  "padLeft w s = replicate (w - length s) CHR ''0'' @ s"

definition civilFromDays :: "int \<Rightarrow> int \<times> int \<times> int" where
  "civilFromDays days =
     (let z = days + 719468;
          era = z div 146097;
          doe = z - era * 146097;
          yoe = (doe - doe div 1460 + doe div 36524 - doe div 146096) div 365;
          y = yoe + era * 400;
          doy = doe - (365 * yoe + yoe div 4 - yoe div 100);
          mp = (5 * doy + 2) div 153;
          d = doy - (153 * mp + 2) div 5 + 1;
          m = (if mp < 10 then mp + 3 else mp - 9)
      in (if m \<le> 2 then y + 1 else y, m, d))"

definition yearString :: "int \<Rightarrow> string" where
  "yearString y =
     (if 0 \<le> y \<and> y \<le> 9999 then padLeft 4 (decimalNat (nat y))
      else if y < 0 then CHR ''-'' # padLeft 6 (decimalNat (nat (- y)))
      else CHR ''+'' # padLeft 6 (decimalNat (nat y)))"

definition isoDate :: "int \<Rightarrow> string" where
  "isoDate t =
     (case civilFromDays (t div 86400000) of
        (y, m, d) \<Rightarrow>
          yearString y @ ''-'' @ padLeft 2 (decimalNat (nat m)) @ ''-'' @ padLeft 2 (decimalNat (nat d)))"

text \<open>
  The same on a \<^verbatim>\<open>Date\<close> that can be invalid: \<^verbatim>\<open>toISOString\<close> throws a
  \<^verbatim>\<open>RangeError\<close> on an invalid date.
\<close>

definition isoDateOf :: "JsDate \<Rightarrow> JsError + string" where
  "isoDateOf d = (case d of InvalidDate \<Rightarrow> Inl RangeError | Instant t \<Rightarrow> Inr (isoDate t))"

section \<open>The view-model\<close>

datatype SortKey =
  K_id | K_fullName | K_phone | K_note | K_customSearchField1 | K_type | K_lastCall | K_nextCall

datatype SortOrder = asc | desc

text \<open>
  The refs of the component. An empty \<^verbatim>\<open>searchType\<close> or \<^verbatim>\<open>sortKey\<close> (the string \<^verbatim>\<open>''\<close>)
  is \<open>None\<close>.
\<close>

record ViewModel =
  customers :: "Customer list"
  newCustomer :: NewCustomer
  editingCustomer :: "Customer option"
  searchId :: string
  searchFullName :: string
  searchPhone :: string
  searchNote :: string
  searchCustomField :: string
  searchType :: "CustomerType option"
  searchLastCall :: string
  searchNextCall :: string
  sortKey :: "SortKey option"
  sortOrder :: SortOrder

subsection \<open>filteredCustomers\<close>

text \<open>\<^verbatim>\<open>String(customer.id ?? '')\<close>\<close>

definition idString :: "'date CustomerRec \<Rightarrow> string" where
  "idString customer = (case id_c customer of None \<Rightarrow> [] | Some n \<Rightarrow> numberString n)"

text \<open>
  The two date closures of the filter, \<^verbatim>\<open>lastCallMatch\<close> and \<^verbatim>\<open>nextCallMatch\<close>: a search
  date, and the record's date. On a valid date they return; \<open>callMatch\<close> is their value
  there, \<open>dateMatch\<close> is what they do on any \<^verbatim>\<open>Date\<close>.
\<close>

definition callMatch :: "string \<Rightarrow> int option \<Rightarrow> bool" where
  "callMatch search call =
     (if search = [] then True
      else (case call of
              None \<Rightarrow> False
            | Some t \<Rightarrow> (let customerDate = isoDate t in customerDate = search)))"

definition dateMatch :: "string \<Rightarrow> JsDate option \<Rightarrow> JsError + bool" where
  "dateMatch search call =
     (if search = [] then Inr True
      else (case call of
              None \<Rightarrow> Inr False
            | Some d \<Rightarrow>
                (case isoDateOf d of
                   Inl e \<Rightarrow> Inl e
                 | Inr customerDate \<Rightarrow> Inr (customerDate = search))))"

text \<open>
  The callback of \<^verbatim>\<open>customers.value.filter\<close>, on a record with valid dates: all eight
  constants are computed, then their conjunction is returned.
\<close>

definition customerMatches :: "(string \<Rightarrow> string) \<Rightarrow> ViewModel \<Rightarrow> Customer \<Rightarrow> bool" where
  "customerMatches lw vm customer =
     (let idMatch = (if searchId vm \<noteq> [] then includes_s (idString customer) (searchId vm) else True);
          fullNameMatch =
            includes_s (toLowerCase lw (fullName customer)) (toLowerCase lw (searchFullName vm));
          phoneMatch = includes_s (toLowerCase lw (phone customer)) (toLowerCase lw (searchPhone vm));
          noteMatch = includes_s (toLowerCase lw (note_c customer)) (toLowerCase lw (searchNote vm));
          customFieldMatch =
            includes_s (toLowerCase lw (customSearchField1 customer))
              (toLowerCase lw (searchCustomField vm));
          typeMatch = (case searchType vm of None \<Rightarrow> True | Some t \<Rightarrow> type_c customer = t);
          lastCallMatch = callMatch (searchLastCall vm) (lastCall customer);
          nextCallMatch = callMatch (searchNextCall vm) (nextCall customer)
      in idMatch \<and> fullNameMatch \<and> phoneMatch \<and> noteMatch \<and> customFieldMatch \<and> typeMatch
         \<and> lastCallMatch \<and> nextCallMatch)"

definition filteredCustomers :: "(string \<Rightarrow> string) \<Rightarrow> ViewModel \<Rightarrow> Customer list" where
  "filteredCustomers lw vm = filter (customerMatches lw vm) (customers vm)"

text \<open>
  The same callback on a record as the store delivers it: the date closures run after
  the six other constants, and what they throw leaves the callback.
\<close>

definition customerMatchesStored ::
  "(string \<Rightarrow> string) \<Rightarrow> ViewModel \<Rightarrow> StoredCustomer \<Rightarrow> JsError + bool" where
  "customerMatchesStored lw vm customer =
     (let idMatch = (if searchId vm \<noteq> [] then includes_s (idString customer) (searchId vm) else True);
          fullNameMatch =
            includes_s (toLowerCase lw (fullName customer)) (toLowerCase lw (searchFullName vm));
          phoneMatch = includes_s (toLowerCase lw (phone customer)) (toLowerCase lw (searchPhone vm));
          noteMatch = includes_s (toLowerCase lw (note_c customer)) (toLowerCase lw (searchNote vm));
          customFieldMatch =
            includes_s (toLowerCase lw (customSearchField1 customer))
              (toLowerCase lw (searchCustomField vm));
          typeMatch = (case searchType vm of None \<Rightarrow> True | Some t \<Rightarrow> type_c customer = t)
      in case dateMatch (searchLastCall vm) (lastCall customer) of
           Inl e \<Rightarrow> Inl e
         | Inr lastCallMatch \<Rightarrow>
             (case dateMatch (searchNextCall vm) (nextCall customer) of
                Inl e \<Rightarrow> Inl e
              | Inr nextCallMatch \<Rightarrow>
                  Inr (idMatch \<and> fullNameMatch \<and> phoneMatch \<and> noteMatch \<and> customFieldMatch
                       \<and> typeMatch \<and> lastCallMatch \<and> nextCallMatch)))"

text \<open>
  \<^verbatim>\<open>Array.prototype.filter\<close> with a callback that can throw: the elements are tested
  from left to right, and the first throw ends the call.
\<close>

fun filterThrowing :: "('a \<Rightarrow> JsError + bool) \<Rightarrow> 'a list \<Rightarrow> JsError + 'a list" where
  "filterThrowing p [] = Inr []"
| "filterThrowing p (x # xs) =
     (case p x of
        Inl e \<Rightarrow> Inl e
      | Inr b \<Rightarrow>
          (case filterThrowing p xs of
             Inl e \<Rightarrow> Inl e
           | Inr ys \<Rightarrow> Inr (if b then x # ys else ys)))"

text \<open>
  \<^verbatim>\<open>filteredCustomers\<close> on a snapshot as the store delivers it (the search criteria are
  those of the view-model).
\<close>

definition filteredCustomers_stored ::
  "(string \<Rightarrow> string) \<Rightarrow> ViewModel \<Rightarrow> StoredCustomer list \<Rightarrow> JsError + StoredCustomer list" where
  "filteredCustomers_stored lw vm snapshot = filterThrowing (customerMatchesStored lw vm) snapshot"

text \<open>
  \<^verbatim>\<open>safeFormatForInput\<close>, which the forms format dates with, on a \<^verbatim>\<open>Date\<close> or
  \<^verbatim>\<open>undefined\<close>: it tests the date before it calls \<^verbatim>\<open>toISOString\<close>.
\<close>

definition safeFormatForInput :: "JsDate option \<Rightarrow> string" where
  "safeFormatForInput d =
     (case d of
        None \<Rightarrow> []
      | Some InvalidDate \<Rightarrow> []
      | Some (Instant t) \<Rightarrow> isoDate t)"

subsection \<open>sortedAndFilteredCustomers\<close>

text \<open>
  \<^verbatim>\<open>Array.prototype.sort(comparefn)\<close> is a stable sort; the language leaves the order
  of its comparisons, and its result on a comparator that is not consistent, to the
  engine. It is modelled as the stable insertion sort that branches on
  \<^verbatim>\<open>comparefn(x, y) < 0\<close> only (the test V8's sort uses): each element, from left to
  right, goes in front of the first element of the sorted part it is before.
\<close>

fun insertSorted :: "('a \<Rightarrow> 'a \<Rightarrow> int) \<Rightarrow> 'a \<Rightarrow> 'a list \<Rightarrow> 'a list" where
  "insertSorted cmp x [] = [x]"
| "insertSorted cmp x (y # ys) = (if cmp x y < 0 then x # y # ys else y # insertSorted cmp x ys)"

fun sortFrom :: "('a \<Rightarrow> 'a \<Rightarrow> int) \<Rightarrow> 'a list \<Rightarrow> 'a list \<Rightarrow> 'a list" where
  "sortFrom cmp placed [] = placed"
| "sortFrom cmp placed (x # rest) = sortFrom cmp (insertSorted cmp x placed) rest"

definition arraySort :: "('a \<Rightarrow> 'a \<Rightarrow> int) \<Rightarrow> 'a list \<Rightarrow> 'a list" where
  "arraySort cmp xs = sortFrom cmp [] xs"

text \<open>
  \<^verbatim>\<open>a[key]\<close>: the value of a field, \<open>Undefined\<close> for a field that is not set. The text
  fields and \<^verbatim>\<open>type\<close> are always set.
\<close>

datatype FieldValue = Undefined | NumV int | DateV int | StrV string

fun field :: "SortKey \<Rightarrow> Customer \<Rightarrow> FieldValue" where
  "field K_id a = (case id_c a of None \<Rightarrow> Undefined | Some n \<Rightarrow> NumV n)"
| "field K_fullName a = StrV (fullName a)"
| "field K_phone a = StrV (phone a)"
| "field K_note a = StrV (note_c a)"
| "field K_customSearchField1 a = StrV (customSearchField1 a)"
| "field K_type a = StrV (typeString (type_c a))"
| "field K_lastCall a = (case lastCall a of None \<Rightarrow> Undefined | Some t \<Rightarrow> DateV t)"
| "field K_nextCall a = (case nextCall a of None \<Rightarrow> Undefined | Some t \<Rightarrow> DateV t)"

text \<open>
  The comparator, in the order of its tests. \<open>lc\<close> is \<^verbatim>\<open>String.prototype.localeCompare\<close>,
  the collation of the user's locale, a parameter of the model. Both values are read
  with one key, so they are of one kind when both are set; the comparator is left
  unspecified on two set values of different kinds.
\<close>

fun compareValues :: "(string \<Rightarrow> string \<Rightarrow> int) \<Rightarrow> FieldValue \<Rightarrow> FieldValue \<Rightarrow> int" where
  "compareValues lc Undefined valB = 1"
| "compareValues lc valA Undefined = - 1"
| "compareValues lc (DateV tA) (DateV tB) = tA - tB"
| "compareValues lc (NumV nA) (NumV nB) = nA - nB"
| "compareValues lc (StrV sA) (StrV sB) = lc sA sB"

definition compareFn :: "(string \<Rightarrow> string \<Rightarrow> int) \<Rightarrow> SortKey \<Rightarrow> Customer \<Rightarrow> Customer \<Rightarrow> int" where
  "compareFn lc key a b = (let valA = field key a; valB = field key b in compareValues lc valA valB)"

text \<open>
  The body of the computed value after the copy, as a function of the copied sequence
  and the sort directive (\<^verbatim>\<open>sortKey\<close>, \<^verbatim>\<open>sortOrder\<close>).
\<close>

definition applySort ::
  "(string \<Rightarrow> string \<Rightarrow> int) \<Rightarrow> SortKey option \<Rightarrow> SortOrder \<Rightarrow> Customer list \<Rightarrow> Customer list" where
  "applySort lc sk so customersToSort =
     (case sk of
        None \<Rightarrow> customersToSort
      | Some key \<Rightarrow>
          (let customersSorted = arraySort (compareFn lc key) customersToSort in
           if so = desc then rev customersSorted else customersSorted))"

definition sortedAndFilteredCustomers ::
  "(string \<Rightarrow> string) \<Rightarrow> (string \<Rightarrow> string \<Rightarrow> int) \<Rightarrow> ViewModel \<Rightarrow> Customer list" where
  "sortedAndFilteredCustomers lw lc vm =
     (let customersToSort = filteredCustomers lw vm
      in applySort lc (sortKey vm) (sortOrder vm) customersToSort)"

text \<open>
  The same computation on a store of arrays, for what it shares and what it copies: an
  array is an address into the store, \<^verbatim>\<open>[...xs]\<close> allocates a new array, and
  \<^verbatim>\<open>sort\<close> and \<^verbatim>\<open>reverse\<close> overwrite the array they are called on. \<open>p\<close> is the address of
  \<^verbatim>\<open>filteredCustomers.value\<close>; the result is the store afterwards and the address returned.
\<close>

type_synonym arrays = "Customer list list"

definition spreadCopy :: "arrays \<Rightarrow> nat \<Rightarrow> arrays \<times> nat" where
  "spreadCopy h p = (h @ [h ! p], length h)"

definition sortInPlace :: "(Customer \<Rightarrow> Customer \<Rightarrow> int) \<Rightarrow> arrays \<Rightarrow> nat \<Rightarrow> arrays" where
  "sortInPlace cmp h p = h[p := arraySort cmp (h ! p)]"

definition reverseInPlace :: "arrays \<Rightarrow> nat \<Rightarrow> arrays" where
  "reverseInPlace h p = h[p := rev (h ! p)]"

definition sortedAndFilteredCustomers_arrays ::
  "(string \<Rightarrow> string \<Rightarrow> int) \<Rightarrow> ViewModel \<Rightarrow> arrays \<Rightarrow> nat \<Rightarrow> arrays \<times> nat" where
  "sortedAndFilteredCustomers_arrays lc vm h p =
     (case spreadCopy h p of
        (h1, customersToSort) \<Rightarrow>
          (case sortKey vm of
             None \<Rightarrow> (h1, customersToSort)
           | Some key \<Rightarrow>
               (let h2 = sortInPlace (compareFn lc key) h1 customersToSort;
                    h3 = (if sortOrder vm = desc then reverseInPlace h2 customersToSort else h2)
                in (h3, customersToSort))))"

subsection \<open>sortBy\<close>

definition sortBy :: "SortKey \<Rightarrow> ViewModel \<Rightarrow> ViewModel" where
  "sortBy key vm =
     (if sortKey vm = Some key
      then vm\<lparr>sortOrder := (if sortOrder vm = asc then desc else asc)\<rparr>
      else vm\<lparr>sortKey := Some key, sortOrder := asc\<rparr>)"

section \<open>The forms, the record store and the import\<close>

text \<open>
  The record store is outside the component: the model keeps the calls made to it, in
  order, together with the alerts shown and the errors logged. An awaited call resolves
  or rejects; which one is an input of the operation that awaits it.
\<close>

datatype Outcome = Resolved | Rejected

text \<open>
  A JSON value as \<^verbatim>\<open>JSON.parse\<close> returns it. An object lists each of its keys once.
\<close>

datatype json =
  JNull | JBool bool | JNum int | JStr string | JArr "json list" | JObj "(string \<times> json) list"

text \<open>
  An element of \<^verbatim>\<open>importedCustomers\<close>: the own properties of the parsed element
  (\<^verbatim>\<open>...c\<close>, held as the element itself), and the two date fields: \<open>Some v\<close> stands for
  \<^verbatim>\<open>new Date(v)\<close>, \<open>None\<close> for \<^verbatim>\<open>undefined\<close>.
\<close>

record Imported =
  spreadOf :: json
  lastCall_i :: "json option"
  nextCall_i :: "json option"

datatype StoreCall =
  Add NewCustomer | Update "int option" Customer | Clear | BulkAdd "Imported list"

record World =
  storeCalls :: "StoreCall list"
  alerts :: "string list"
  consoleErrors :: "JsError list"

definition emptyNewCustomer :: NewCustomer where
  "emptyNewCustomer =
     \<lparr>fullName = [], phone = [], note_c = [], customSearchField1 = [], type_c = NEW,
      lastCall = None, nextCall = None\<rparr>"

subsection \<open>addCustomer and updateCustomer\<close>

definition addCustomer :: "Outcome \<Rightarrow> ViewModel \<times> World \<Rightarrow> ViewModel \<times> World" where
  "addCustomer added s =
     (case s of
        (vm, w) \<Rightarrow>
          if fullName (newCustomer vm) = [] \<or> phone (newCustomer vm) = []
          then (vm, w\<lparr>alerts := alerts w @ [''Full Name and Phone are required.'']\<rparr>)
          else
            (let w1 = w\<lparr>storeCalls := storeCalls w @ [Add (newCustomer vm)]\<rparr> in
             case added of
               Rejected \<Rightarrow> (vm, w1)
             | Resolved \<Rightarrow> (vm\<lparr>newCustomer := emptyNewCustomer\<rparr>, w1)))"

definition updateCustomer :: "Outcome \<Rightarrow> ViewModel \<times> World \<Rightarrow> ViewModel \<times> World" where
  "updateCustomer updated s =
     (case s of
        (vm, w) \<Rightarrow>
          (case editingCustomer vm of
             None \<Rightarrow> (vm, w)
           | Some c \<Rightarrow>
               (let w1 = w\<lparr>storeCalls := storeCalls w @ [Update (id_c c) c]\<rparr> in
                case updated of
                  Rejected \<Rightarrow> (vm, w1)
                | Resolved \<Rightarrow> (vm\<lparr>editingCustomer := None\<rparr>, w1))))"

subsection \<open>importData\<close>

text \<open>The truth value of a JSON value in a condition.\<close>

fun truthy :: "json \<Rightarrow> bool" where
  "truthy JNull = False"
| "truthy (JBool b) = b"
| "truthy (JNum n) = (n \<noteq> 0)"
| "truthy (JStr s) = (s \<noteq> [])"
| "truthy (JArr xs) = True"
| "truthy (JObj kvs) = True"

text \<open>
  \<^verbatim>\<open>c.lastCall\<close>, \<^verbatim>\<open>c.nextCall\<close>: reading a property of \<^verbatim>\<open>null\<close> throws; an object has
  the properties it lists; a number, a boolean, a string and an array have no property
  of these names.
\<close>

fun getProperty :: "json \<Rightarrow> string \<Rightarrow> JsError + json option" where
  "getProperty JNull k = Inl TypeError"
| "getProperty (JObj kvs) k = Inr (map_of kvs k)"
| "getProperty c k = Inr None"

text \<open>
  \<^verbatim>\<open>new Date(v)\<close> on a parsed value: an object or an array is converted to a primitive
  first, through \<^verbatim>\<open>valueOf\<close> and \<^verbatim>\<open>toString\<close>. An object of the file has the inherited
  methods unless it has an entry of that name, which is no function; the inherited
  \<^verbatim>\<open>valueOf\<close> returns the object itself, so the conversion throws a \<^verbatim>\<open>TypeError\<close> when
  the object has a \<^verbatim>\<open>toString\<close> entry. An array is joined from the strings of its
  elements (\<^verbatim>\<open>null\<close> gives the empty string), and throws when one of them does. A
  string, a number or a boolean is a primitive already.
\<close>

fun conversionThrows :: "json \<Rightarrow> bool" where
  "conversionThrows (JObj kvs) = (map_of kvs ''toString'' \<noteq> None)"
| "conversionThrows (JArr xs) = list_ex conversionThrows xs"
| "conversionThrows v = False"

text \<open>\<^verbatim>\<open>v ? new Date(v) : undefined\<close>\<close>

definition dateOrUndefined :: "json option \<Rightarrow> JsError + json option" where
  "dateOrUndefined v =
     (case v of
        None \<Rightarrow> Inr None
      | Some x \<Rightarrow>
          if truthy x then (if conversionThrows x then Inl TypeError else Inr (Some x))
          else Inr None)"

text \<open>
  The callback of \<^verbatim>\<open>.map\<close>: \<^verbatim>\<open>lastCall\<close> is read and converted, then \<^verbatim>\<open>nextCall\<close>. The
  map itself stops at the first throw.
\<close>

definition importOne :: "json \<Rightarrow> JsError + Imported" where
  "importOne c =
     (case getProperty c ''lastCall'' of
        Inl e \<Rightarrow> Inl e
      | Inr l \<Rightarrow>
          (case dateOrUndefined l of
             Inl e \<Rightarrow> Inl e
           | Inr lastCallDate \<Rightarrow>
               (case getProperty c ''nextCall'' of
                  Inl e \<Rightarrow> Inl e
                | Inr n \<Rightarrow>
                    (case dateOrUndefined n of
                       Inl e \<Rightarrow> Inl e
                     | Inr nextCallDate \<Rightarrow>
                         Inr \<lparr>spreadOf = c, lastCall_i = lastCallDate,
                              nextCall_i = nextCallDate\<rparr>))))"

fun importAll :: "json list \<Rightarrow> JsError + Imported list" where
  "importAll [] = Inr []"
| "importAll (c # cs) =
     (case importOne c of
        Inl e \<Rightarrow> Inl e
      | Inr i \<Rightarrow> (case importAll cs of Inl e \<Rightarrow> Inl e | Inr is \<Rightarrow> Inr (i # is)))"

text \<open>
  The text of the uploaded file, by what \<^verbatim>\<open>JSON.parse\<close> does with it: it throws a
  \<^verbatim>\<open>SyntaxError\<close> (\<open>Malformed\<close>) or returns a value. Only an array has a \<^verbatim>\<open>map\<close> method
  to call.
\<close>

datatype UploadedText = Malformed | WellFormed json

definition importedCustomers :: "UploadedText \<Rightarrow> JsError + Imported list" where
  "importedCustomers text =
     (case text of
        Malformed \<Rightarrow> Inl SyntaxError
      | WellFormed (JArr cs) \<Rightarrow> importAll cs
      | WellFormed v \<Rightarrow> Inl TypeError)"

text \<open>The \<^verbatim>\<open>catch\<close> block.\<close>

definition caught :: "JsError \<Rightarrow> World \<Rightarrow> World" where
  "caught e w = w\<lparr>alerts := alerts w @ [''Invalid JSON file.''], consoleErrors := consoleErrors w @ [e]\<rparr>"

text \<open>
  \<open>file\<close> is the first selected file, if any; \<open>confirmed\<close> the answer to the
  confirmation dialog; \<open>cleared\<close> and \<open>added\<close> the outcomes of the two store calls.
\<close>

definition importData :: "UploadedText option \<Rightarrow> bool \<Rightarrow> Outcome \<Rightarrow> Outcome \<Rightarrow> World \<Rightarrow> World" where
  "importData file confirmed cleared added w =
     (case file of
        None \<Rightarrow> w
      | Some text \<Rightarrow>
          (case importedCustomers text of
             Inl e \<Rightarrow> caught e w
           | Inr imported \<Rightarrow>
               if confirmed then
                 (let w1 = w\<lparr>storeCalls := storeCalls w @ [Clear]\<rparr> in
                  case cleared of
                    Rejected \<Rightarrow> caught StoreError w1
                  | Resolved \<Rightarrow>
                      (let w2 = w1\<lparr>storeCalls := storeCalls w1 @ [BulkAdd imported]\<rparr> in
                       case added of
                         Rejected \<Rightarrow> caught StoreError w2
                       | Resolved \<Rightarrow> w2))
               else w))"

section \<open>Notions the properties are stated with\<close>

subsection \<open>Substrings\<close>

text \<open>A text contains another: the other occurs in it as a substring.\<close>

definition containsText :: "string \<Rightarrow> string \<Rightarrow> bool" where
  "containsText fld flt = (\<exists>pre suf. fld = pre @ flt @ suf)"

subsection \<open>Comparators and order\<close>





text \<open>The chosen field is missing on a record.\<close>

definition missing :: "SortKey \<Rightarrow> Customer \<Rightarrow> bool" where
  "missing key a = (field key a = Undefined)"



text \<open>
  A collation to run the examples with: the comparison of the character codes, the
  first difference deciding.
\<close>

fun ordinalCompare :: "string \<Rightarrow> string \<Rightarrow> int" where
  "ordinalCompare [] [] = 0"
| "ordinalCompare [] (b # t) = - 1"
| "ordinalCompare (a # s) [] = 1"
| "ordinalCompare (a # s) (b # t) =
     (if (of_char a :: nat) < of_char b then - 1
      else if (of_char b :: nat) < of_char a then 1
      else ordinalCompare s t)"

subsection \<open>The import file\<close>

text \<open>
  An element on which the callback of the import throws: \<^verbatim>\<open>null\<close>, or an object whose
  \<^verbatim>\<open>lastCall\<close> or \<^verbatim>\<open>nextCall\<close> is a truthy value that \<^verbatim>\<open>new Date\<close> cannot convert.
\<close>

definition unreadableDate :: "json \<Rightarrow> string \<Rightarrow> bool" where
  "unreadableDate c k =
     (\<exists>kvs x. c = JObj kvs \<and> map_of kvs k = Some x \<and> truthy x \<and> conversionThrows x)"

definition throwingElement :: "json \<Rightarrow> bool" where
  "throwingElement c = (c = JNull \<or> unreadableDate c ''lastCall'' \<or> unreadableDate c ''nextCall'')"

text \<open>
  A text on which reading the import throws: malformed JSON, a value that is not an
  array, an array with such an element.
\<close>

definition readingThrows :: "UploadedText \<Rightarrow> bool" where
  "readingThrows upload =
     (upload = Malformed \<or>
      (\<exists>v. upload = WellFormed v \<and> (\<forall>cs. v \<noteq> JArr cs)) \<or>
      (\<exists>cs. upload = WellFormed (JArr cs) \<and> (\<exists>c\<in>set cs. throwingElement c)))"

text \<open>
  The Customer record schema for a file, after the interface \<^verbatim>\<open>Customer\<close>: an array of
  objects whose four text fields are strings and whose \<^verbatim>\<open>type\<close> is the string of a
  member of the enumeration.
\<close>

definition hasText :: "(string \<times> json) list \<Rightarrow> string \<Rightarrow> bool" where
  "hasText kvs k = (case map_of kvs k of Some (JStr s) \<Rightarrow> True | _ \<Rightarrow> False)"

definition hasType :: "(string \<times> json) list \<Rightarrow> bool" where
  "hasType kvs =
     (case map_of kvs ''type'' of
        Some (JStr s) \<Rightarrow> s \<in> set (map typeString [NEW, BUSY, YES, NO, TRIAL, TEST, FULL, NA])
      | _ \<Rightarrow> False)"

definition customerShaped :: "json \<Rightarrow> bool" where
  "customerShaped v =
     (case v of
        JObj kvs \<Rightarrow>
          hasText kvs ''fullName'' \<and> hasText kvs ''phone'' \<and> hasText kvs ''note'' \<and>
          hasText kvs ''customSearchField1'' \<and> hasType kvs
      | _ \<Rightarrow> False)"

definition matchesSchema :: "json \<Rightarrow> bool" where
  "matchesSchema v = (case v of JArr cs \<Rightarrow> list_all customerShaped cs | _ \<Rightarrow> False)"

section \<open>Example data\<close>

text \<open>The refs as the component initialises them, and a store nothing has called.\<close>

definition initialView :: ViewModel where
  "initialView =
     \<lparr>customers = [], newCustomer = emptyNewCustomer, editingCustomer = None,
      searchId = [], searchFullName = [], searchPhone = [], searchNote = [],
      searchCustomField = [], searchType = None, searchLastCall = [], searchNextCall = [],
      sortKey = None, sortOrder = asc\<rparr>"

definition initialWorld :: World where
  "initialWorld = \<lparr>storeCalls = [], alerts = [], consoleErrors = []\<rparr>"

definition ann :: Customer where
  "ann =
     \<lparr>fullName = ''Ann'', phone = ''1'', note_c = [], customSearchField1 = [], type_c = NEW,
      lastCall = None, nextCall = None, id_c = Some 1\<rparr>"

definition bob :: Customer where
  "bob =
     \<lparr>fullName = ''bob'', phone = ''2'', note_c = [], customSearchField1 = [], type_c = TRIAL,
      lastCall = None, nextCall = None, id_c = Some 2\<rparr>"

text \<open>
  Three records by their last call: 2024-01-05 (1704412800000 ms), none, and 2023-06-01
  (1685577600000 ms); and a fourth one called at the same instant as the first.
\<close>

definition calledJan :: Customer where
  "calledJan = ann\<lparr>lastCall := Some 1704412800000\<rparr>"

definition neverCalled :: Customer where
  "neverCalled = bob"

definition calledJune :: Customer where
  "calledJune = ann\<lparr>fullName := ''Cy'', lastCall := Some 1685577600000, id_c := Some 3\<rparr>"


section \<open>The sort: permutation, order, stability\<close>




lemma mset_insertSorted: "mset (insertSorted cmp x ys) = add_mset x (mset ys)"
  by (induction ys) auto


lemma mset_sortFrom: "mset (sortFrom cmp placed xs) = mset placed + mset xs"
  by (induction xs arbitrary: placed) (auto simp: mset_insertSorted)

lemma mset_arraySort: "mset (arraySort cmp xs) = mset xs"
  by (simp add: arraySort_def mset_sortFrom)













subsection \<open>The comparator of the view\<close>











subsection \<open>Collation, missing values, strict order\<close>












section \<open>The filter\<close>

lemma startsWith_iff: "startsWith s t = (\<exists>suf. s = t @ suf)"
  by (induction s t rule: startsWith.induct) auto

lemma includes_s_iff: "includes_s s t = containsText s t"
proof (induction s)
  case Nil
  show ?case by (cases t) (simp_all add: containsText_def)
next
  case (Cons d s)
  have "containsText (d # s) t = (startsWith (d # s) t \<or> containsText s t)"
  proof
    assume "containsText (d # s) t"
    then obtain pre suf where e: "d # s = pre @ t @ suf" by (auto simp: containsText_def)
    show "startsWith (d # s) t \<or> containsText s t"
    proof (cases pre)
      case Nil
      then show ?thesis using e by (auto simp: startsWith_iff)
    next
      case (Cons p pre')
      then have "s = pre' @ t @ suf" using e by simp
      then show ?thesis by (auto simp: containsText_def)
    qed
  next
    assume "startsWith (d # s) t \<or> containsText s t"
    then show "containsText (d # s) t"
    proof
      assume "startsWith (d # s) t"
      then obtain suf where "d # s = [] @ t @ suf" by (auto simp: startsWith_iff)
      then show ?thesis unfolding containsText_def by blast
    next
      assume "containsText s t"
      then obtain pre suf where "s = pre @ t @ suf" by (auto simp: containsText_def)
      then have "d # s = (d # pre) @ t @ suf" by simp
      then show ?thesis unfolding containsText_def by blast
    qed
  qed
  then show ?case using Cons by simp
qed

lemma includes_s_empty: "includes_s s [] = True"
  by (cases s) simp_all

text \<open>On records with valid dates the callback returns, and \<open>customerMatches\<close> is its value.\<close>

lemma dateMatch_valid: "dateMatch search (map_option Instant call) = Inr (callMatch search call)"
  by (cases call) (simp_all add: dateMatch_def callMatch_def isoDateOf_def)

lemma customerMatchesStored_valid:
  "customerMatchesStored lw vm (stored c) = Inr (customerMatches lw vm c)"
  by (cases "searchType vm")
     (simp_all add: customerMatchesStored_def customerMatches_def stored_def dateMatch_valid
        idString_def Let_def)

lemma filterThrowing_valid:
  "filterThrowing (customerMatchesStored lw vm) (map stored xs) =
   Inr (map stored (filter (customerMatches lw vm) xs))"
  by (induction xs) (simp_all add: customerMatchesStored_valid)

lemma filteredCustomers_stored_valid:
  "filteredCustomers_stored lw vm (map stored (customers vm)) = Inr (map stored (filteredCustomers lw vm))"
  by (simp add: filteredCustomers_stored_def filteredCustomers_def filterThrowing_valid)

text \<open>
  C1. For every snapshot and every search criteria the filter returns the records that
  satisfy the active predicates, a record without the date failing a date filter. On a
  snapshot with a record whose last call is an invalid \<^verbatim>\<open>Date\<close>, under a date filter, the
  filter throws a \<^verbatim>\<open>RangeError\<close> and returns nothing; on the other records of that
  snapshot alone it returns the one called on that date. \<^verbatim>\<open>safeFormatForInput\<close>, in the
  same component, returns the empty text on the invalid date.
\<close>

theorem filter_throws_on_invalid_date:
  "filteredCustomers_stored asciiLower (initialView\<lparr>searchLastCall := ''2024-01-05''\<rparr>)
     [stored calledJan, stored neverCalled, (stored calledJune)\<lparr>lastCall := Some InvalidDate\<rparr>]
   = Inl RangeError \<and>
   filteredCustomers_stored asciiLower (initialView\<lparr>searchLastCall := ''2024-01-05''\<rparr>)
     [stored calledJan, stored neverCalled, stored calledJune]
   = Inr [stored calledJan] \<and>
   safeFormatForInput (Some InvalidDate) = [] \<and>
   safeFormatForInput (Some (Instant 1704412800000)) = ''2024-01-05''"
  by code_simp

text \<open>
  C9. With every search criterion empty the filter returns the snapshot itself.
\<close>

theorem filteredCustomers_no_criteria:
  assumes "searchId vm = []" "searchFullName vm = []" "searchPhone vm = []" "searchNote vm = []"
    "searchCustomField vm = []" "searchType vm = None" "searchLastCall vm = []"
    "searchNextCall vm = []"
  shows "filteredCustomers lw vm = customers vm"
  using assms
  by (simp add: filteredCustomers_def customerMatches_def callMatch_def toLowerCase_def
      includes_s_empty)

theorem filteredCustomers_no_criteria_witness:
  "filteredCustomers asciiLower (initialView\<lparr>customers := [ann, bob, ann\<lparr>fullName := []\<rparr>]\<rparr>)
   = [ann, bob, ann\<lparr>fullName := []\<rparr>]"
  using filteredCustomers_no_criteria[of "initialView\<lparr>customers := [ann, bob, ann\<lparr>fullName := []\<rparr>]\<rparr>"
      asciiLower]
  by (simp add: initialView_def)

section \<open>The sorted view\<close>






lemma mset_applySort: "mset (applySort lc sk so xs) = mset xs"
  by (cases sk) (simp_all add: applySort_def Let_def mset_arraySort)

text \<open>
  C2. Records whose chosen field is missing come after the records that have it, in both
  directions. Under a descending directive the component returns them first: the three
  records called on 2024-01-05, never, and on 2023-06-01, sorted by last call,
  descending.
\<close>

theorem missing_first_when_descending:
  "sortedAndFilteredCustomers lw lc
     (initialView\<lparr>customers := [calledJan, neverCalled, calledJune],
                  sortKey := Some K_lastCall, sortOrder := desc\<rparr>)
   = [neverCalled, calledJan, calledJune] \<and>
   missing K_lastCall neverCalled \<and> \<not> missing K_lastCall calledJan \<and>
   \<not> missing K_lastCall calledJune"
proof -
  let ?vm = "initialView\<lparr>customers := [calledJan, neverCalled, calledJune],
                  sortKey := Some K_lastCall, sortOrder := desc\<rparr>"
  have f: "filteredCustomers lw ?vm = [calledJan, neverCalled, calledJune]"
    by (simp add: filteredCustomers_def customerMatches_def callMatch_def toLowerCase_def
        includes_s_empty initialView_def)
  have k: "sortKey ?vm = Some K_lastCall" "sortOrder ?vm = desc"
    by (simp_all add: initialView_def)
  have s: "applySort lc (Some K_lastCall) desc [calledJan, neverCalled, calledJune]
           = [neverCalled, calledJan, calledJune]"
    by code_simp
  have m: "missing K_lastCall neverCalled \<and> \<not> missing K_lastCall calledJan \<and>
           \<not> missing K_lastCall calledJune"
    by code_simp
  have "sortedAndFilteredCustomers lw lc ?vm = [neverCalled, calledJan, calledJune]"
    unfolding sortedAndFilteredCustomers_def Let_def f k by (rule s)
  then show ?thesis using m by blast
qed









lemma arrays_result:
  assumes "p < length h"
  shows "sortedAndFilteredCustomers_arrays lc vm h p =
         (h @ [applySort lc (sortKey vm) (sortOrder vm) (h ! p)], length h)"
proof (cases "sortKey vm")
  case None
  then show ?thesis
    by (simp add: sortedAndFilteredCustomers_arrays_def spreadCopy_def applySort_def)
next
  case (Some key)
  then show ?thesis
    by (simp add: sortedAndFilteredCustomers_arrays_def spreadCopy_def applySort_def
        sortInPlace_def reverseInPlace_def Let_def nth_append)
qed

text \<open>
  C10. The sorted view is a permutation of the filtered sequence, and computing it
  changes no array that existed before: the sort and the reversal work on a new copy.
\<close>

theorem sorted_view_permutes_copy:
  assumes "p < length h" "h ! p = filteredCustomers lw vm"
  shows "(case sortedAndFilteredCustomers_arrays lc vm h p of
            (h', q) \<Rightarrow>
              q = length h \<and> take (length h) h' = h \<and>
              h' ! q = sortedAndFilteredCustomers lw lc vm \<and>
              mset (h' ! q) = mset (filteredCustomers lw vm)) \<and>
         mset (sortedAndFilteredCustomers lw lc vm) = mset (filteredCustomers lw vm)"
  using assms
  by (simp add: arrays_result sortedAndFilteredCustomers_def mset_applySort)

theorem sorted_view_permutes_copy_witness:
  "sortedAndFilteredCustomers_arrays ordinalCompare
     (initialView\<lparr>customers := [calledJan, neverCalled, calledJune],
                  sortKey := Some K_lastCall, sortOrder := desc\<rparr>)
     [[calledJan, neverCalled, calledJune], [calledJan, neverCalled, calledJune]] 1
   = ([[calledJan, neverCalled, calledJune], [calledJan, neverCalled, calledJune],
       [neverCalled, calledJan, calledJune]], 2) \<and>
   mset [neverCalled, calledJan, calledJune] = mset [calledJan, neverCalled, calledJune]"
proof -
  let ?vm = "initialView\<lparr>customers := [calledJan, neverCalled, calledJune],
                  sortKey := Some K_lastCall, sortOrder := desc\<rparr>"
  let ?h = "[[calledJan, neverCalled, calledJune], [calledJan, neverCalled, calledJune]]"
  have f: "?h ! 1 = filteredCustomers asciiLower ?vm" by code_simp
  have r: "sortedAndFilteredCustomers_arrays ordinalCompare ?vm ?h 1
           = (?h @ [[neverCalled, calledJan, calledJune]], 2)"
    by code_simp
  have s: "sortedAndFilteredCustomers asciiLower ordinalCompare ?vm = [neverCalled, calledJan, calledJune]"
    by code_simp
  have p: "(1::nat) < length ?h" by simp
  show ?thesis
    using r s sorted_view_permutes_copy[OF p f, where lc = ordinalCompare] f by simp
qed

text \<open>
  C6, as stated: in every state two calls of \<^verbatim>\<open>sortBy\<close> on one field restore the
  direction held before the first. In the initial state the direction is ascending;
  after two calls on the full name it is descending.
\<close>

theorem sortBy_twice_new_field:
  "sortOrder initialView = asc \<and>
   sortBy K_fullName (sortBy K_fullName initialView) =
     initialView\<lparr>sortKey := Some K_fullName, sortOrder := desc\<rparr>"
  by (simp add: sortBy_def initialView_def)

text \<open>
  C6. The toggle: selecting the current sort field flips the direction, selecting
  another field selects it with the ascending direction. Two selections of the current
  field restore the state, and with it the direction and the displayed order; two
  selections of a field that was not the current one leave it selected with the
  descending direction, whatever the direction was.
\<close>

theorem sortBy_toggle:
  "(sortKey vm = Some key \<longrightarrow>
      sortBy key vm = vm\<lparr>sortOrder := (if sortOrder vm = asc then desc else asc)\<rparr> \<and>
      sortBy key (sortBy key vm) = vm \<and>
      sortOrder (sortBy key (sortBy key vm)) = sortOrder vm \<and>
      sortedAndFilteredCustomers lw lc (sortBy key (sortBy key vm)) = sortedAndFilteredCustomers lw lc vm) \<and>
   (sortKey vm \<noteq> Some key \<longrightarrow>
      sortBy key vm = vm\<lparr>sortKey := Some key, sortOrder := asc\<rparr> \<and>
      sortBy key (sortBy key vm) = vm\<lparr>sortKey := Some key, sortOrder := desc\<rparr>)"
proof -
  have "sortBy key (sortBy key vm) = vm" if "sortKey vm = Some key"
    using that by (cases "sortOrder vm") (simp_all add: sortBy_def)
  then show ?thesis by (auto simp: sortBy_def)
qed

theorem sortBy_toggle_witness:
  "sortBy K_lastCall
     (initialView\<lparr>customers := [calledJan, neverCalled, calledJune], sortKey := Some K_lastCall\<rparr>)
   = initialView\<lparr>customers := [calledJan, neverCalled, calledJune], sortKey := Some K_lastCall,
                  sortOrder := desc\<rparr> \<and>
   sortedAndFilteredCustomers asciiLower ordinalCompare
     (sortBy K_lastCall (sortBy K_lastCall
        (initialView\<lparr>customers := [calledJan, neverCalled, calledJune], sortKey := Some K_lastCall\<rparr>)))
   = [calledJune, calledJan, neverCalled] \<and>
   sortBy K_lastCall (initialView\<lparr>sortKey := Some K_fullName, sortOrder := desc\<rparr>) =
     initialView\<lparr>sortKey := Some K_lastCall, sortOrder := asc\<rparr>"
proof -
  let ?vm = "initialView\<lparr>customers := [calledJan, neverCalled, calledJune], sortKey := Some K_lastCall\<rparr>"
  have s: "sortedAndFilteredCustomers asciiLower ordinalCompare ?vm = [calledJune, calledJan, neverCalled]"
    by code_simp
  have k: "sortKey ?vm = Some K_lastCall" "sortOrder ?vm = asc"
    "sortKey (initialView\<lparr>sortKey := Some K_fullName, sortOrder := desc\<rparr>) \<noteq> Some K_lastCall"
    by (simp_all add: initialView_def)
  note t = sortBy_toggle[where vm = ?vm and key = K_lastCall and lc = ordinalCompare and lw = asciiLower]
  note u = sortBy_toggle[where vm = "initialView\<lparr>sortKey := Some K_fullName, sortOrder := desc\<rparr>"
        and key = K_lastCall and lc = ordinalCompare and lw = asciiLower]
  have t1: "sortBy K_lastCall ?vm = ?vm\<lparr>sortOrder := desc\<rparr>"
    using t k(1,2) by simp
  have "sortedAndFilteredCustomers asciiLower ordinalCompare (sortBy K_lastCall (sortBy K_lastCall ?vm)) =
        sortedAndFilteredCustomers asciiLower ordinalCompare ?vm"
    using t k(1) by blast
  then have t2: "sortedAndFilteredCustomers asciiLower ordinalCompare (sortBy K_lastCall (sortBy K_lastCall ?vm)) =
        [calledJune, calledJan, neverCalled]"
    using s by (rule trans)
  have t3: "sortBy K_lastCall (initialView\<lparr>sortKey := Some K_fullName, sortOrder := desc\<rparr>) =
     initialView\<lparr>sortKey := Some K_lastCall, sortOrder := asc\<rparr>"
    using u k(3) by simp
  show ?thesis using t1 t2 t3 by blast
qed

section \<open>The forms and the import\<close>

text \<open>
  C7. An add with an empty full name or an empty phone is rejected before the store is
  called: the user is alerted, the store and the pending record are left as they were.
  So a record handed to the store by the add has both fields non-empty. The update
  hands the edited record to the store without looking at these fields.
\<close>

theorem addCustomer_validates:
  "(fullName (newCustomer vm) = [] \<or> phone (newCustomer vm) = [] \<longrightarrow>
      addCustomer added (vm, w) =
        (vm, w\<lparr>alerts := alerts w @ [''Full Name and Phone are required.'']\<rparr>) \<and>
      storeCalls (snd (addCustomer added (vm, w))) = storeCalls w) \<and>
   (storeCalls (snd (addCustomer added (vm, w))) \<noteq> storeCalls w \<longrightarrow>
      storeCalls (snd (addCustomer added (vm, w))) = storeCalls w @ [Add (newCustomer vm)] \<and>
      fullName (newCustomer vm) \<noteq> [] \<and> phone (newCustomer vm) \<noteq> []) \<and>
   (editingCustomer vm = Some c \<longrightarrow>
      storeCalls (snd (updateCustomer updated (vm, w))) = storeCalls w @ [Update (id_c c) c])"
  by (cases added; cases updated) (simp_all add: addCustomer_def updateCustomer_def Let_def)

theorem addCustomer_validates_witness:
  "addCustomer Resolved
     (initialView\<lparr>newCustomer := emptyNewCustomer\<lparr>fullName := ''Ann''\<rparr>\<rparr>, initialWorld)
   = (initialView\<lparr>newCustomer := emptyNewCustomer\<lparr>fullName := ''Ann''\<rparr>\<rparr>,
      initialWorld\<lparr>alerts := [''Full Name and Phone are required.'']\<rparr>) \<and>
   storeCalls (snd (addCustomer Resolved
     (initialView\<lparr>newCustomer := emptyNewCustomer\<lparr>fullName := ''Ann'', phone := ''1''\<rparr>\<rparr>,
      initialWorld)))
   = [Add (emptyNewCustomer\<lparr>fullName := ''Ann'', phone := ''1''\<rparr>)] \<and>
   storeCalls (snd (updateCustomer Resolved
     (initialView\<lparr>editingCustomer := Some (ann\<lparr>fullName := [], phone := []\<rparr>)\<rparr>, initialWorld)))
   = [Update (Some 1) (ann\<lparr>fullName := [], phone := []\<rparr>)]"
proof -
  let ?bad = "initialView\<lparr>newCustomer := emptyNewCustomer\<lparr>fullName := ''Ann''\<rparr>\<rparr>"
  let ?good = "initialView\<lparr>newCustomer := emptyNewCustomer\<lparr>fullName := ''Ann'', phone := ''1''\<rparr>\<rparr>"
  let ?edit = "initialView\<lparr>editingCustomer := Some (ann\<lparr>fullName := [], phone := []\<rparr>)\<rparr>"
  have b: "fullName (newCustomer ?bad) = [] \<or> phone (newCustomer ?bad) = []"
    by (simp add: initialView_def emptyNewCustomer_def)
  have g: "storeCalls (snd (addCustomer Resolved (?good, initialWorld))) \<noteq> storeCalls initialWorld"
    by (simp add: addCustomer_def initialView_def emptyNewCustomer_def initialWorld_def)
  have e: "editingCustomer ?edit = Some (ann\<lparr>fullName := [], phone := []\<rparr>)"
    by (simp add: initialView_def)
  have 1: "addCustomer Resolved (?bad, initialWorld) =
           (?bad, initialWorld\<lparr>alerts := alerts initialWorld @ [''Full Name and Phone are required.'']\<rparr>)"
    using b addCustomer_validates[where vm = ?bad and w = initialWorld and added = Resolved] by blast
  have 2: "storeCalls (snd (addCustomer Resolved (?good, initialWorld))) =
           storeCalls initialWorld @ [Add (newCustomer ?good)]"
    using g addCustomer_validates[where vm = ?good and w = initialWorld and added = Resolved] by blast
  have 3: "storeCalls (snd (updateCustomer Resolved (?edit, initialWorld))) =
           storeCalls initialWorld @ [Update (id_c (ann\<lparr>fullName := [], phone := []\<rparr>))
             (ann\<lparr>fullName := [], phone := []\<rparr>)]"
    using e addCustomer_validates[where vm = ?edit and w = initialWorld and updated = Resolved
        and c = "ann\<lparr>fullName := [], phone := []\<rparr>"] by blast
  have i: "alerts initialWorld = []" "storeCalls initialWorld = []"
    "newCustomer ?good = emptyNewCustomer\<lparr>fullName := ''Ann'', phone := ''1''\<rparr>"
    "id_c (ann\<lparr>fullName := [], phone := []\<rparr>) = Some 1"
    by (simp_all add: initialWorld_def initialView_def ann_def)
  show ?thesis using 1 2 3 unfolding i by simp
qed

lemma importOne_throws: "throwingElement c \<Longrightarrow> importOne c = Inl TypeError"
  by (cases c)
     (auto simp: throwingElement_def unreadableDate_def importOne_def dateOrUndefined_def
        split: option.splits)

lemma importOne_returns:
  "\<not> throwingElement c \<Longrightarrow> \<exists>i. importOne c = Inr i"
  by (cases c)
     (auto simp: throwingElement_def unreadableDate_def importOne_def dateOrUndefined_def
        split: option.splits)

lemma importAll_throws: "\<exists>c\<in>set cs. throwingElement c \<Longrightarrow> \<exists>e. importAll cs = Inl e"
proof (induction cs)
  case Nil
  then show ?case by simp
next
  case (Cons c cs)
  show ?case
  proof (cases "throwingElement c")
    case True
    then show ?thesis by (simp add: importOne_throws)
  next
    case False
    then have "\<exists>e. importAll cs = Inl e" using Cons by simp
    then show ?thesis by (auto split: sum.splits)
  qed
qed

lemma importAll_returns: "\<forall>c\<in>set cs. \<not> throwingElement c \<Longrightarrow> \<exists>is. importAll cs = Inr is"
proof (induction cs)
  case Nil
  then show ?case by simp
next
  case (Cons c cs)
  obtain i where "importOne c = Inr i" using Cons.prems importOne_returns[of c] by auto
  moreover obtain js where "importAll cs = Inr js" using Cons by auto
  ultimately show ?case by simp
qed

lemma importedCustomers_throws: "readingThrows upload \<Longrightarrow> \<exists>e. importedCustomers upload = Inl e"
proof (cases upload)
  case Malformed
  then show ?thesis by (simp add: importedCustomers_def)
next
  case (WellFormed v)
  assume "readingThrows upload"
  then show ?thesis using WellFormed importAll_throws
    by (cases v) (auto simp: importedCustomers_def readingThrows_def)
qed

lemma importedCustomers_returns:
  "\<not> readingThrows upload \<Longrightarrow> \<exists>imported. importedCustomers upload = Inr imported"
proof (cases upload)
  case Malformed
  assume "\<not> readingThrows upload"
  then show ?thesis using Malformed by (simp add: readingThrows_def)
next
  case (WellFormed v)
  assume n: "\<not> readingThrows upload"
  then obtain cs where v: "v = JArr cs" using WellFormed by (auto simp: readingThrows_def)
  then have "\<forall>c\<in>set cs. \<not> throwingElement c" using n WellFormed by (auto simp: readingThrows_def)
  then show ?thesis using importAll_returns WellFormed v by (simp add: importedCustomers_def)
qed

text \<open>
  C8, as stated: an import whose text is malformed JSON, or does not match the Customer
  schema, aborts before the store is called. The file \<^verbatim>\<open>[{"foo": 1}]\<close> does not match
  the schema; once the user confirms, the store is cleared and the element is added.
\<close>

theorem import_of_other_shape_replaces_store:
  "\<not> matchesSchema (JArr [JObj [(''foo'', JNum 1)]]) \<and>
   importData (Some (WellFormed (JArr [JObj [(''foo'', JNum 1)]]))) True Resolved Resolved initialWorld
   = initialWorld\<lparr>storeCalls :=
       [Clear,
        BulkAdd [\<lparr>spreadOf = JObj [(''foo'', JNum 1)], lastCall_i = None, nextCall_i = None\<rparr>]]\<rparr>"
  by (simp add: matchesSchema_def customerShaped_def hasText_def importData_def
      importedCustomers_def importOne_def dateOrUndefined_def initialWorld_def)

text \<open>
  C8. The import aborts before the store is called exactly when reading the text throws:
  on malformed JSON, on a value that is not an array, on an array with an element that
  is \<^verbatim>\<open>null\<close> or whose \<^verbatim>\<open>lastCall\<close> or \<^verbatim>\<open>nextCall\<close> cannot be converted to a date. Then
  neither \<^verbatim>\<open>clear\<close> nor \<^verbatim>\<open>bulkAdd\<close> is called, and the user is alerted. Every other text
  is read, whatever the shape of its elements: declined, it changes nothing;
  confirmed, it clears the store and, the store cleared, adds what was read.
\<close>

theorem importData_aborts_when_reading_throws:
  "(readingThrows upload \<longrightarrow>
      storeCalls (importData (Some upload) confirmed cleared added w) = storeCalls w \<and>
      alerts (importData (Some upload) confirmed cleared added w) =
        alerts w @ [''Invalid JSON file.'']) \<and>
   (\<not> readingThrows upload \<longrightarrow>
      (\<exists>imported.
         importedCustomers upload = Inr imported \<and>
         importData (Some upload) False cleared added w = w \<and>
         storeCalls (importData (Some upload) True Rejected added w) = storeCalls w @ [Clear] \<and>
         storeCalls (importData (Some upload) True Resolved added w) =
           storeCalls w @ [Clear, BulkAdd imported]))"
proof (cases "readingThrows upload")
  case True
  then obtain e where "importedCustomers upload = Inl e"
    using importedCustomers_throws by blast
  then show ?thesis using True by (simp add: importData_def caught_def)
next
  case False
  then obtain imported where "importedCustomers upload = Inr imported"
    using importedCustomers_returns by blast
  then show ?thesis using False
    by (cases added) (simp_all add: importData_def caught_def Let_def)
qed

theorem importData_aborts_when_reading_throws_witness:
  "readingThrows Malformed \<and>
   storeCalls (importData (Some Malformed) True Resolved Resolved initialWorld) = [] \<and>
   alerts (importData (Some Malformed) True Resolved Resolved initialWorld) = [''Invalid JSON file.''] \<and>
   storeCalls (importData (Some (WellFormed (JObj [(''fullName'', JStr ''Ann'')]))) True Resolved
     Resolved initialWorld) = [] \<and>
   storeCalls (importData (Some (WellFormed (JArr [JNull]))) True Resolved Resolved initialWorld) = [] \<and>
   storeCalls (importData (Some (WellFormed (JArr [JObj [(''lastCall'', JObj [(''toString'', JNum 1)])]])))
     True Resolved Resolved initialWorld) = [] \<and>
   \<not> readingThrows (WellFormed (JArr [JObj [(''lastCall'', JStr ''abc'')]])) \<and>
   storeCalls (importData (Some (WellFormed (JArr [JObj [(''lastCall'', JStr ''abc'')]])))
     True Resolved Resolved initialWorld)
   = [Clear, BulkAdd [\<lparr>spreadOf = JObj [(''lastCall'', JStr ''abc'')],
                        lastCall_i = Some (JStr ''abc''), nextCall_i = None\<rparr>]]"
proof -
  let ?obj = "WellFormed (JObj [(''fullName'', JStr ''Ann'')])"
  let ?nul = "WellFormed (JArr [JNull])"
  let ?bad = "WellFormed (JArr [JObj [(''lastCall'', JObj [(''toString'', JNum 1)])]])"
  let ?abc = "WellFormed (JArr [JObj [(''lastCall'', JStr ''abc'')]])"
  have 1: "readingThrows Malformed" by (simp add: readingThrows_def)
  have 2: "readingThrows ?obj" by (simp add: readingThrows_def)
  have 3: "readingThrows ?nul" by (simp add: readingThrows_def throwingElement_def)
  have 4: "readingThrows ?bad"
    by (simp add: readingThrows_def throwingElement_def unreadableDate_def)
  have 5: "\<not> readingThrows ?abc"
    by (simp add: readingThrows_def throwingElement_def unreadableDate_def)
  have r: "importedCustomers ?abc =
           Inr [\<lparr>spreadOf = JObj [(''lastCall'', JStr ''abc'')],
                  lastCall_i = Some (JStr ''abc''), nextCall_i = None\<rparr>]"
    by (simp add: importedCustomers_def importOne_def dateOrUndefined_def)
  have i: "storeCalls initialWorld = []" "alerts initialWorld = []"
    by (simp_all add: initialWorld_def)
  note t = importData_aborts_when_reading_throws[where confirmed = True and cleared = Resolved
      and added = Resolved and w = initialWorld]
  have a1: "storeCalls (importData (Some Malformed) True Resolved Resolved initialWorld) = []"
    and a2: "alerts (importData (Some Malformed) True Resolved Resolved initialWorld) =
             [''Invalid JSON file.'']"
    using t[of Malformed] 1 i by simp_all
  have a3: "storeCalls (importData (Some ?obj) True Resolved Resolved initialWorld) = []"
    using t[of ?obj] 2 i by simp
  have a4: "storeCalls (importData (Some ?nul) True Resolved Resolved initialWorld) = []"
    using t[of ?nul] 3 i by simp
  have a5: "storeCalls (importData (Some ?bad) True Resolved Resolved initialWorld) = []"
    using t[of ?bad] 4 i by simp
  have a6: "storeCalls (importData (Some ?abc) True Resolved Resolved initialWorld) =
            [Clear, BulkAdd [\<lparr>spreadOf = JObj [(''lastCall'', JStr ''abc'')],
                        lastCall_i = Some (JStr ''abc''), nextCall_i = None\<rparr>]]"
    using t[of ?abc] 5 r i by simp
  show ?thesis using 1 5 a1 a2 a3 a4 a5 a6 by blast
qed

end
